theory Spec2Isabelle
  imports Complex_Main
begin

section \<open>Loop-point discovery and track extension\<close>

text \<open>
  A shallow embedding of the four looper scripts. The feature extraction library
  (chromagram, recurrence matrix, beat tracker, time conversions) is external to the
  repository: what it returns is an input of the model. Affinities, times and durations
  are Python floats; the model uses exact reals, so rounding is abstracted away, and no
  value is NaN. Only comparisons and the two scalings by 0.15 and by the sample rate are
  performed on them.
\<close>

subsection \<open>Exceptions\<close>

text \<open>A raised exception is represented by its message, the value of \<open>str(e)\<close>.\<close>

type_synonym exn = string

subsection \<open>The similarity matrix and its mask\<close>

text \<open>A two-dimensional array, stored as the list of its rows.\<close>

type_synonym matrix = "real list list"

definition is_square :: "nat \<Rightarrow> matrix \<Rightarrow> bool" where
  "is_square n m \<longleftrightarrow> length m = n \<and> list_all (\<lambda>row. length row = n) m"

text \<open>
  \<open>np.fill_diagonal(a, val)\<close> on a rectangular array with R rows and C columns writes
  \<open>a[k, k]\<close> for every \<open>k < min R C\<close>, and nothing else.
\<close>

definition fill_diagonal :: "matrix \<Rightarrow> real \<Rightarrow> matrix" where
  "fill_diagonal a val = map (\<lambda>(k, row). row[k := val]) (zip [0..<length a] a)"

text \<open>
  \<open>np.fill_diagonal(a[i:, :], val)\<close>: the view drops the first \<open>i\<close> rows, and the write
  goes through to \<open>a\<close>.
\<close>

definition fill_diagonal_rows_from :: "nat \<Rightarrow> matrix \<Rightarrow> real \<Rightarrow> matrix" where
  "fill_diagonal_rows_from i a val = take i a @ fill_diagonal (drop i a) val"

text \<open>
  \<open>np.fill_diagonal(a[:, i:], val)\<close>: the view drops the first \<open>i\<close> columns of every
  row, and the write goes through to \<open>a\<close>.
\<close>

definition fill_diagonal_cols_from :: "nat \<Rightarrow> matrix \<Rightarrow> real \<Rightarrow> matrix" where
  "fill_diagonal_cols_from i a val =
     map (\<lambda>(row, row'). take i row @ row') (zip a (fill_diagonal (map (drop i) a) val))"

text \<open>The body of \<open>for i in range(min_loop_frames)\<close>.\<close>

definition mask_step :: "matrix \<Rightarrow> nat \<Rightarrow> matrix" where
  "mask_step m i = fill_diagonal_cols_from i (fill_diagonal_rows_from i m 0) 0"

text \<open>
  The masking of \<open>find_loop_points\<close>: the main diagonal is zeroed first, whatever
  \<open>min_loop_frames\<close> is, then the loop runs; \<open>range\<close> of a negative number is empty.
\<close>

definition mask_band :: "matrix \<Rightarrow> int \<Rightarrow> matrix" where
  "mask_band m min_loop_frames =
     foldl mask_step (fill_diagonal m 0) [0..<nat min_loop_frames]"

subsection \<open>Searching the masked matrix\<close>

text \<open>
  \<open>np.argmax\<close> over a flat array: the index of the first occurrence of the maximum,
  found by one scan; on an empty array it raises ValueError.
\<close>

fun argmax_scan :: "'a::linorder list \<Rightarrow> nat \<Rightarrow> nat \<Rightarrow> 'a \<Rightarrow> nat" where
  "argmax_scan [] i best bv = best"
| "argmax_scan (x # xs) i best bv =
     (if bv < x then argmax_scan xs (Suc i) i x else argmax_scan xs (Suc i) best bv)"

definition argmax :: "'a::linorder list \<Rightarrow> exn + nat" where
  "argmax xs =
     (case xs of
        [] \<Rightarrow> Inl ''attempt to get argmax of an empty sequence''
      | x # ys \<Rightarrow> Inr (argmax_scan ys 1 0 x))"

text \<open>\<open>np.argmin\<close>, likewise: the first occurrence of the minimum.\<close>

fun argmin_scan :: "'a::linorder list \<Rightarrow> nat \<Rightarrow> nat \<Rightarrow> 'a \<Rightarrow> nat" where
  "argmin_scan [] i best bv = best"
| "argmin_scan (x # xs) i best bv =
     (if x < bv then argmin_scan xs (Suc i) i x else argmin_scan xs (Suc i) best bv)"

definition argmin :: "'a::linorder list \<Rightarrow> exn + nat" where
  "argmin xs =
     (case xs of
        [] \<Rightarrow> Inl ''attempt to get argmin of an empty sequence''
      | x # ys \<Rightarrow> Inr (argmin_scan ys 1 0 x))"

text \<open>The shape of a two-dimensional array, and \<open>np.unravel_index\<close> in row-major order.\<close>

definition matrix_shape :: "matrix \<Rightarrow> nat \<times> nat" where
  "matrix_shape m = (length m, case m of [] \<Rightarrow> 0 | row # _ \<Rightarrow> length row)"

definition unravel_index :: "nat \<Rightarrow> nat \<times> nat \<Rightarrow> nat \<times> nat" where
  "unravel_index k shape = (k div snd shape, k mod snd shape)"

text \<open>
  The search of \<open>find_loop_points\<close>: the brightest cell of the matrix, its two
  coordinates ordered into (start frame, end frame). No value of the maximum is tested.
\<close>

definition find_loop_candidate :: "matrix \<Rightarrow> exn + (nat \<times> nat)" where
  "find_loop_candidate similarity_matrix =
     (case argmax (concat similarity_matrix) of
        Inl e \<Rightarrow> Inl e
      | Inr k \<Rightarrow>
          (case unravel_index k (matrix_shape similarity_matrix) of
             (frame2, frame1) \<Rightarrow> Inr (min frame1 frame2, max frame1 frame2)))"

subsection \<open>Beat synchronisation\<close>

text \<open>
  \<open>beat_frames[np.argmin(np.abs(beat_frames - frame))]\<close>: the entry of the beat grid
  nearest to the frame, the one of lowest index on a tie. On an empty grid
  \<open>np.argmin\<close> raises.
\<close>

definition beat_sync :: "int list \<Rightarrow> int \<Rightarrow> exn + int" where
  "beat_sync beat_frames frame =
     (case argmin (map (\<lambda>b. \<bar>b - frame\<bar>) beat_frames) of
        Inl e \<Rightarrow> Inl e
      | Inr k \<Rightarrow> Inr (beat_frames ! k))"

subsection \<open>The analysis pipeline\<close>

text \<open>
  What the feature extraction library answers, and writes, in one run. The first three
  fields are calls that may raise; an exception is carried as \<open>Inl\<close>.
  \<^item> \<open>load\<close>: \<open>librosa.load\<close> of the whole file followed by \<open>librosa.get_duration\<close>,
    the total duration of the track in seconds;
  \<^item> \<open>recurrence_matrix\<close>: \<open>chroma_cqt\<close> followed by \<open>recurrence_matrix\<close> in affinity
    mode, made dense. The scripts call it with its default arguments (\<open>self=False\<close>,
    \<open>width=1\<close>), for which the matrix is square and its main diagonal is empty;
  \<^item> \<open>beat_track\<close>: the beat grid, in frames;
  \<^item> \<open>time_to_frames\<close> and \<open>frames_to_time\<close>: the conversions at the analysis rate;
  \<^item> \<open>warnings\<close>: the lines that the library writes to the error channel during the
    run. The scripts do not silence them.
\<close>

record librosa =
  load :: "exn + real"
  recurrence_matrix :: "exn + matrix"
  beat_track :: "exn + int list"
  time_to_frames :: "real \<Rightarrow> int"
  frames_to_time :: "int \<Rightarrow> real"
  warnings :: "string list"

text \<open>
  The main diagonal of a square matrix is empty: the contract of \<open>recurrence_matrix\<close>
  with \<open>self=False\<close>.
\<close>

definition zero_diagonal :: "matrix \<Rightarrow> bool" where
  "zero_diagonal a \<longleftrightarrow> list_all (\<lambda>k. a ! k ! k = 0) [0..<length a]"

text \<open>
  The part of \<open>find_loop_points\<close> that the four scripts share, up to the two synced
  frames: mask, search, beat grid, snap.
\<close>

definition synced_frames :: "librosa \<Rightarrow> real \<Rightarrow> exn + (int \<times> int)" where
  "synced_frames L min_duration =
     (case recurrence_matrix L of
        Inl e \<Rightarrow> Inl e
      | Inr similarity_matrix \<Rightarrow>
     (case find_loop_candidate
             (mask_band similarity_matrix (time_to_frames L min_duration)) of
        Inl e \<Rightarrow> Inl e
      | Inr (loop_start_frame, loop_end_frame) \<Rightarrow>
     (case beat_track L of
        Inl e \<Rightarrow> Inl e
      | Inr beat_frames \<Rightarrow>
     (case beat_sync beat_frames (int loop_start_frame) of
        Inl e \<Rightarrow> Inl e
      | Inr loop_start_frame_synced \<Rightarrow>
     (case beat_sync beat_frames (int loop_end_frame) of
        Inl e \<Rightarrow> Inl e
      | Inr loop_end_frame_synced \<Rightarrow>
          Inr (loop_start_frame_synced, loop_end_frame_synced))))))"

text \<open>\<open>src/python/looper.py\<close>: the synced frames are compared before the conversion.\<close>

definition python_find_loop_points :: "librosa \<Rightarrow> real \<Rightarrow> exn + (real \<times> real)" where
  "python_find_loop_points L min_duration =
     (case synced_frames L min_duration of
        Inl e \<Rightarrow> Inl e
      | Inr (loop_start_frame_synced, loop_end_frame_synced) \<Rightarrow>
          if loop_start_frame_synced = loop_end_frame_synced
          then Inl ''Loop points are too close to sync to the beat.''
          else Inr (frames_to_time L loop_start_frame_synced,
                    frames_to_time L loop_end_frame_synced))"

text \<open>
  A printed line: \<open>Loop_line a b\<close> is the line \<open>f"{a}:{b}"\<close> of two floats, \<open>Text_line\<close>
  any other text.
\<close>

datatype line = Loop_line real real | Text_line string

text \<open>
  \<open>src/plugin/looper.py\<close>: no comparison of the synced frames; every exception is
  caught and returned as a string that starts with \<open>Error: \<close>.
\<close>

definition plugin_find_loop_points :: "librosa \<Rightarrow> real \<Rightarrow> line" where
  "plugin_find_loop_points L min_duration =
     (case synced_frames L min_duration of
        Inl e \<Rightarrow> Text_line (''Error: '' @ e)
      | Inr (loop_start_frame_synced, loop_end_frame_synced) \<Rightarrow>
          Loop_line (frames_to_time L loop_start_frame_synced)
                    (frames_to_time L loop_end_frame_synced))"

text \<open>The minimum loop duration each script derives from the total duration.\<close>

definition python_min_loop_duration :: "real \<Rightarrow> real" where
  "python_min_loop_duration total_duration = max 15.0 (total_duration * 0.15)"

definition plugin_min_loop_duration :: "real \<Rightarrow> real" where
  "plugin_min_loop_duration total_duration = total_duration * 0.15"

definition analysis_min_duration :: "real \<Rightarrow> real" where
  "analysis_min_duration total_duration =
     (let min_duration = total_duration * 0.15
      in if min_duration < 10 then 10 else min_duration)"

text \<open>
  \<open>src/analysis/looper.py\<close>: the dictionary returned by
  \<open>find_loop_points_from_data\<close>, with status success or failed.
\<close>

datatype analysis_result = Success real real | Failed string

definition find_loop_points_from_data :: "librosa \<Rightarrow> analysis_result" where
  "find_loop_points_from_data L =
     (case load L of
        Inl e \<Rightarrow> Failed e
      | Inr total_duration \<Rightarrow>
     (case synced_frames L (analysis_min_duration total_duration) of
        Inl e \<Rightarrow> Failed e
      | Inr (loop_start_frame_synced, loop_end_frame_synced) \<Rightarrow>
          Success (frames_to_time L loop_start_frame_synced)
                  (frames_to_time L loop_end_frame_synced)))"

subsection \<open>The two command-line programs\<close>

text \<open>
  What a run leaves behind: the lines on each channel and the exit status. The error
  channel also receives the warnings of the library; the message of the script, when
  it writes one there, comes last.
\<close>

record process =
  stdout :: "line list"
  stderr :: "line list"
  exit_status :: nat

text \<open>
  \<open>src/python/looper.py\<close> loads with \<open>librosa.load(..., duration=300)\<close>: at most the
  first 300 seconds of the track are read, and \<open>get_duration\<close> is the duration of what
  was read.
\<close>

definition python_load :: "librosa \<Rightarrow> exn + real" where
  "python_load L =
     (case load L of
        Inl e \<Rightarrow> Inl e
      | Inr track_duration \<Rightarrow> Inr (min track_duration 300))"

text \<open>
  \<open>src/python/looper.py\<close>, the body of \<open>try\<close>: it raises an exception, or prints the
  loop line and leaves with \<open>sys.exit(0)\<close>, which \<open>except Exception\<close> does not catch.
  Argument parsing happens before and is not modelled.
\<close>

definition python_try :: "librosa \<Rightarrow> exn + line" where
  "python_try L =
     (case python_load L of
        Inl e \<Rightarrow> Inl e
      | Inr total_duration \<Rightarrow>
          if total_duration < 20
          then Inl ''Audio file is too short for meaningful loop analysis.''
          else
     (case python_find_loop_points L (python_min_loop_duration total_duration) of
        Inl e \<Rightarrow> Inl e
      | Inr (loop_start, loop_end) \<Rightarrow>
          if loop_end > loop_start then Inr (Loop_line loop_start loop_end)
          else Inl ''Could not find a confident loop.''))"

definition python_main :: "librosa \<Rightarrow> process" where
  "python_main L =
     (case python_try L of
        Inl e \<Rightarrow>
          \<lparr>stdout = [],
           stderr = map Text_line (warnings L) @ [Text_line (''Error: '' @ e)],
           exit_status = 1\<rparr>
      | Inr l \<Rightarrow>
          \<lparr>stdout = [l], stderr = map Text_line (warnings L), exit_status = 0\<rparr>)"

text \<open>
  \<open>src/plugin/looper.py\<close>: every \<open>print\<close> goes to the standard output, so the error
  channel holds the warnings of the library only. The result of \<open>find_loop_points\<close> is
  printed as it is and the script then ends, with status 0.
\<close>

definition plugin_main :: "string list \<Rightarrow> bool \<Rightarrow> librosa \<Rightarrow> process" where
  "plugin_main argv file_exists L =
     (if length argv \<noteq> 2
      then \<lparr>stdout = [Text_line ''Usage: python looper.py <audio_file>''],
            stderr = map Text_line (warnings L), exit_status = 1\<rparr>
      else if \<not> file_exists
      then \<lparr>stdout = [Text_line (''Error: File not found: '' @ argv ! 1)],
            stderr = map Text_line (warnings L), exit_status = 1\<rparr>
      else
     (case load L of
        Inl e \<Rightarrow>
          \<lparr>stdout = [Text_line (''Error: '' @ e)],
           stderr = map Text_line (warnings L), exit_status = 1\<rparr>
      | Inr total_duration \<Rightarrow>
          if total_duration < 20
          then \<lparr>stdout = [Text_line ''Error: Audio file too short for analysis''],
                stderr = map Text_line (warnings L), exit_status = 1\<rparr>
          else \<lparr>stdout = [plugin_find_loop_points L (plugin_min_loop_duration total_duration)],
                stderr = map Text_line (warnings L), exit_status = 0\<rparr>))"

subsection \<open>Track extension\<close>

text \<open>
  A one-dimensional sample buffer. Python's slice \<open>xs[lo:hi]\<close>: a negative index counts
  from the end, and an index outside the buffer is clipped to it.
\<close>

type_synonym samples = "real list"

definition slice_index :: "nat \<Rightarrow> int \<Rightarrow> nat" where
  "slice_index n i = (if i < 0 then nat (max 0 (i + int n)) else min (nat i) n)"

definition py_slice :: "'a list \<Rightarrow> int \<Rightarrow> int \<Rightarrow> 'a list" where
  "py_slice xs lo hi =
     take (slice_index (length xs) hi - slice_index (length xs) lo)
       (drop (slice_index (length xs) lo) xs)"

definition py_slice_to :: "'a list \<Rightarrow> int \<Rightarrow> 'a list" where
  "py_slice_to xs hi = take (slice_index (length xs) hi) xs"

text \<open>
  \<open>librosa.get_duration(y=..., sr=sr)\<close>: the number of samples over the sample rate.
  The rate is the file's own, as \<open>librosa.load(file_path, sr=None)\<close> returns it, and
  is positive. With a rate of 0 Python raises ZeroDivisionError where the division of
  HOL returns 0: every property of the extension below assumes \<open>0 < sr\<close>.
\<close>

definition get_duration :: "samples \<Rightarrow> nat \<Rightarrow> real" where
  "get_duration y sr = real (length y) / real sr"

text \<open>
  The \<open>while\<close> loop of \<open>extend_track\<close>. It may run forever: the value \<open>None\<close> stands
  for a loop that never ends.
\<close>

partial_function (option) extend_loop ::
    "samples \<Rightarrow> samples \<Rightarrow> nat \<Rightarrow> real \<Rightarrow> samples option" where
  "extend_loop extended_audio loop_segment sr target_duration_seconds =
     (if get_duration extended_audio sr < target_duration_seconds
      then extend_loop (extended_audio @ loop_segment) loop_segment sr target_duration_seconds
      else Some extended_audio)"

text \<open>
  \<open>extend_track\<close> from the two sample indices on: the prefix, the loop segment, the
  loop. The result is the buffer handed to \<open>sf.write\<close>.
\<close>

definition extend_samples :: "samples \<Rightarrow> nat \<Rightarrow> int \<Rightarrow> int \<Rightarrow> real \<Rightarrow> samples option" where
  "extend_samples y sr loop_start_samples loop_end_samples target_duration_seconds =
     (let intro_and_first_loop = py_slice_to y loop_end_samples;
          loop_segment = py_slice y loop_start_samples loop_end_samples
      in extend_loop intro_and_first_loop loop_segment sr target_duration_seconds)"

text \<open>
  \<open>extend_track\<close> itself, from the loop points in seconds. The conversion
  \<open>librosa.time_to_samples\<close> at the rate of the file belongs to the library (a float
  product cast to a 64-bit integer) and is a parameter.
\<close>

definition extend_track ::
    "(real \<Rightarrow> int) \<Rightarrow> samples \<Rightarrow> nat \<Rightarrow> real \<Rightarrow> real \<Rightarrow> real \<Rightarrow> samples option" where
  "extend_track time_to_samples y sr loop_start loop_end target_duration_seconds =
     extend_samples y sr (time_to_samples loop_start) (time_to_samples loop_end)
       target_duration_seconds"

subsection \<open>First maximum and first minimum\<close>


definition first_min :: "'a::linorder list \<Rightarrow> nat \<Rightarrow> bool" where
  "first_min xs k \<longleftrightarrow>
     k < length xs \<and> list_all (\<lambda>x. xs ! k \<le> x) xs \<and> list_all (\<lambda>x. xs ! k < x) (take k xs)"

section \<open>Properties\<close>

subsection \<open>Facts about the mask\<close>

lemma length_fill_diagonal: "length (fill_diagonal a v) = length a"
  by (simp add: fill_diagonal_def)

lemma nth_fill_diagonal:
  "r < length a \<Longrightarrow> fill_diagonal a v ! r = (a ! r)[r := v]"
  by (simp add: fill_diagonal_def)

lemma length_fill_diagonal_rows_from: "length (fill_diagonal_rows_from i a v) = length a"
  by (simp add: fill_diagonal_rows_from_def length_fill_diagonal)

lemma nth_fill_diagonal_rows_from:
  "r < length a \<Longrightarrow>
   fill_diagonal_rows_from i a v ! r = (if i \<le> r then (a ! r)[r - i := v] else a ! r)"
  by (simp add: fill_diagonal_rows_from_def nth_append length_fill_diagonal nth_fill_diagonal)

lemma length_fill_diagonal_cols_from: "length (fill_diagonal_cols_from i a v) = length a"
  by (simp add: fill_diagonal_cols_from_def length_fill_diagonal)

lemma nth_fill_diagonal_cols_from:
  "r < length a \<Longrightarrow>
   fill_diagonal_cols_from i a v ! r = take i (a ! r) @ (drop i (a ! r))[r := v]"
  by (simp add: fill_diagonal_cols_from_def length_fill_diagonal nth_fill_diagonal)

lemma length_mask_step: "length (mask_step m i) = length m"
  by (simp add: mask_step_def length_fill_diagonal_cols_from length_fill_diagonal_rows_from)

lemma nth_mask_step_length:
  "r < length m \<Longrightarrow> length (mask_step m i ! r) = length (m ! r)"
  by (simp add: mask_step_def nth_fill_diagonal_cols_from nth_fill_diagonal_rows_from
      length_fill_diagonal_rows_from)

lemma nth_mask_step:
  assumes "r < length m" and "c < length (m ! r)"
  shows "mask_step m i ! r ! c = (if r = c + i \<or> c = r + i then 0 else m ! r ! c)"
proof -
  let ?a = "fill_diagonal_rows_from i m 0"
  have la: "r < length ?a"
    using assms(1) by (simp add: length_fill_diagonal_rows_from)
  have row: "?a ! r = (if i \<le> r then (m ! r)[r - i := 0] else m ! r)"
    using assms(1) by (rule nth_fill_diagonal_rows_from)
  have lrow: "length (?a ! r) = length (m ! r)"
    by (simp add: row)
  have arc: "?a ! r ! c = (if r = c + i then 0 else m ! r ! c)"
    using assms(2) by (auto simp: row nth_list_update)
  have "mask_step m i ! r = take i (?a ! r) @ (drop i (?a ! r))[r := 0]"
    unfolding mask_step_def using la by (rule nth_fill_diagonal_cols_from)
  then have "mask_step m i ! r ! c =
      (if c < i then ?a ! r ! c else (drop i (?a ! r))[r := 0] ! (c - i))"
    using assms(2) lrow by (simp add: nth_append)
  also have "\<dots> = (if c = r + i then 0 else ?a ! r ! c)"
    using assms(2) lrow by (auto simp: nth_list_update)
  finally show ?thesis
    using arc by auto
qed

lemma length_foldl_mask_step: "length (foldl mask_step m is) = length m"
  by (induction "is" arbitrary: m) (simp_all add: length_mask_step)

lemma nth_length_foldl_mask_step:
  "r < length m \<Longrightarrow> length (foldl mask_step m is ! r) = length (m ! r)"
  by (induction "is" arbitrary: m) (simp_all add: length_mask_step nth_mask_step_length)

lemma nth_foldl_mask_step:
  assumes "r < length m" and "c < length (m ! r)"
  shows "foldl mask_step m [0..<n] ! r ! c =
           (if r < c + n \<and> c < r + n then 0 else m ! r ! c)"
proof (induction n)
  case 0
  show ?case by simp
next
  case (Suc n)
  let ?p = "foldl mask_step m [0..<n]"
  have "r < length ?p" and "c < length (?p ! r)"
    using assms by (simp_all add: length_foldl_mask_step nth_length_foldl_mask_step)
  then have "mask_step ?p n ! r ! c = (if r = c + n \<or> c = r + n then 0 else ?p ! r ! c)"
    by (rule nth_mask_step)
  then show ?case
    using Suc by auto
qed

lemma length_mask_band: "length (mask_band m k) = length m"
  by (simp add: mask_band_def length_foldl_mask_step length_fill_diagonal)

lemma nth_length_mask_band:
  "r < length m \<Longrightarrow> length (mask_band m k ! r) = length (m ! r)"
  by (simp add: mask_band_def nth_length_foldl_mask_step length_fill_diagonal
      nth_fill_diagonal)

lemma nth_mask_band:
  assumes "r < length m" and "c < length (m ! r)"
  shows "mask_band m k ! r ! c =
           (if r = c \<or> \<bar>int r - int c\<bar> < k then 0 else m ! r ! c)"
proof -
  let ?d = "fill_diagonal m 0"
  have ld: "r < length ?d" and lr: "c < length (?d ! r)"
    using assms by (simp_all add: length_fill_diagonal nth_fill_diagonal)
  have d: "?d ! r ! c = (if r = c then 0 else m ! r ! c)"
    using assms by (auto simp: nth_fill_diagonal nth_list_update)
  have "mask_band m k ! r ! c =
          (if r < c + nat k \<and> c < r + nat k then 0 else ?d ! r ! c)"
    unfolding mask_band_def using ld lr by (rule nth_foldl_mask_step)
  also have "\<dots> = (if r = c \<or> \<bar>int r - int c\<bar> < k then 0 else m ! r ! c)"
    using d by auto
  finally show ?thesis .
qed

lemma is_square_nth: "is_square n m \<Longrightarrow> r < n \<Longrightarrow> length (m ! r) = n"
  by (simp add: is_square_def list_all_length)

lemma is_square_mask_band: "is_square n m \<Longrightarrow> is_square n (mask_band m k)"
  by (simp add: is_square_def list_all_length length_mask_band nth_length_mask_band)

lemma zero_diagonal_nth: "zero_diagonal a \<Longrightarrow> r < length a \<Longrightarrow> a ! r ! r = 0"
  by (simp add: zero_diagonal_def list_all_iff)

text \<open>
  C2. For the affinity matrix of a chromagram of N frames, square and with the empty
  main diagonal that \<open>recurrence_matrix\<close> leaves, and for every \<open>min_loop_frames\<close>,
  the masked matrix has the same size, is zero at every entry whose frame distance is
  below \<open>min_loop_frames\<close>, and is the unmasked entry everywhere else. When
  \<open>min_loop_frames\<close> is at least 1 this holds of every square matrix, whatever its
  diagonal.
\<close>

theorem mask_band_zero_band_else_unchanged:
  assumes "is_square n a" and "zero_diagonal a \<or> 1 \<le> min_loop_frames"
    and "i < n" and "j < n"
  shows "is_square n (mask_band a min_loop_frames)
         \<and> (\<bar>int i - int j\<bar> < min_loop_frames \<longrightarrow> mask_band a min_loop_frames ! i ! j = 0)
         \<and> (min_loop_frames \<le> \<bar>int i - int j\<bar> \<longrightarrow>
              mask_band a min_loop_frames ! i ! j = a ! i ! j)"
proof -
  have il: "i < length a" and jl: "j < length (a ! i)"
    using assms(1,3,4) by (simp_all add: is_square_def list_all_length)
  have entry: "mask_band a min_loop_frames ! i ! j =
      (if i = j \<or> \<bar>int i - int j\<bar> < min_loop_frames then 0 else a ! i ! j)"
    using il jl by (rule nth_mask_band)
  have diag: "a ! i ! j = 0" if "i = j" and "min_loop_frames \<le> \<bar>int i - int j\<bar>"
  proof -
    from that have "\<not> 1 \<le> min_loop_frames" by simp
    with assms(2) have "zero_diagonal a" by blast
    then show ?thesis using il that(1) by (simp add: zero_diagonal_nth)
  qed
  have "\<bar>int i - int j\<bar> < min_loop_frames \<longrightarrow> mask_band a min_loop_frames ! i ! j = 0"
    using entry by simp
  moreover have "min_loop_frames \<le> \<bar>int i - int j\<bar> \<longrightarrow>
      mask_band a min_loop_frames ! i ! j = a ! i ! j"
    using entry diag by auto
  ultimately show ?thesis
    using assms(1) by (simp add: is_square_mask_band)
qed

theorem mask_band_zero_band_else_unchanged_witness:
  "is_square 3 [[0, 2, 3], [4, 0, 6], [7, 8, 0]]
   \<and> zero_diagonal [[0, 2, 3], [4, 0, 6], [7, 8, 0]]
   \<and> (0::nat) < 3 \<and> (1::nat) < 3 \<and> (2::nat) < 3
   \<and> \<bar>int 0 - int 1\<bar> < 2 \<and> (2::int) \<le> \<bar>int 0 - int 2\<bar> \<and> (0::int) \<le> \<bar>int 0 - int 0\<bar>
   \<and> mask_band [[0, 2, 3], [4, 0, 6], [7, 8, 0]] 2 ! 0 ! 1 = 0
   \<and> mask_band [[0, 2, 3], [4, 0, 6], [7, 8, 0]] 2 ! 0 ! 2 = 3
   \<and> mask_band [[0, 2, 3], [4, 0, 6], [7, 8, 0]] 0 ! 0 ! 0
       = [[0, 2, 3], [4, 0, 6], [7, 8, 0]] ! 0 ! 0"
proof -
  have sq: "is_square 3 [[0, 2, 3], [4, 0, 6], [7, 8, 0]]"
    by (simp add: is_square_def)
  have zd: "zero_diagonal [[0, 2, 3], [4, 0, 6], [7, 8, 0]]"
    by (simp add: zero_diagonal_def upt_rec)
  have h: "zero_diagonal [[0, 2, 3], [4, 0, 6], [7, 8, 0]] \<or> (1::int) \<le> k" for k
    using zd by simp
  have i0: "(0::nat) < 3" and i1: "(1::nat) < 3" and i2: "(2::nat) < 3"
    by simp_all
  have near: "\<bar>int 0 - int 1\<bar> < 2" and far: "(2::int) \<le> \<bar>int 0 - int 2\<bar>"
    and same: "(0::int) \<le> \<bar>int 0 - int 0\<bar>"
    by simp_all
  from mask_band_zero_band_else_unchanged [OF sq h i0 i1, of 2] near
  have a: "mask_band [[0, 2, 3], [4, 0, 6], [7, 8, 0]] 2 ! 0 ! 1 = 0"
    by blast
  from mask_band_zero_band_else_unchanged [OF sq h i0 i2, of 2] far
  have "mask_band [[0, 2, 3], [4, 0, 6], [7, 8, 0]] 2 ! 0 ! 2
      = [[0, 2, 3], [4, 0, 6], [7, 8, 0]] ! 0 ! 2"
    by blast
  then have b: "mask_band [[0, 2, 3], [4, 0, 6], [7, 8, 0]] 2 ! 0 ! 2 = 3"
    by simp
  from mask_band_zero_band_else_unchanged [OF sq h i0 i0, of 0] same
  have c: "mask_band [[0, 2, 3], [4, 0, 6], [7, 8, 0]] 0 ! 0 ! 0
      = [[0, 2, 3], [4, 0, 6], [7, 8, 0]] ! 0 ! 0"
    by blast
  from sq zd i0 i1 i2 near far same a b c show ?thesis by blast
qed

subsection \<open>Facts about the search\<close>





lemma first_min_snoc:
  assumes "first_min ps b"
  shows "first_min (ps @ [x]) (if x < ps ! b then length ps else b)"
  using assms
  by (auto simp: first_min_def nth_append list_all_iff dest: in_set_takeD)

lemma argmin_scan_first_min:
  "first_min ps b \<Longrightarrow> first_min (ps @ xs) (argmin_scan xs (length ps) b (ps ! b))"
proof (induction xs arbitrary: ps b)
  case Nil
  then show ?case by simp
next
  case (Cons x xs)
  let ?b = "if x < ps ! b then length ps else b"
  have fm: "first_min (ps @ [x]) ?b"
    using Cons.prems by (rule first_min_snoc)
  have bl: "b < length ps"
    using Cons.prems by (simp add: first_min_def)
  have v: "(ps @ [x]) ! ?b = (if x < ps ! b then x else ps ! b)"
    using bl by (simp add: nth_append)
  from Cons.IH [OF fm] show ?case
    using v by (simp split: if_splits)
qed

lemma argmin_first_min: "argmin xs = Inr k \<Longrightarrow> first_min xs k"
proof (cases xs)
  case Nil
  assume "argmin xs = Inr k"
  with Nil show ?thesis by (simp add: argmin_def)
next
  case (Cons x ys)
  assume a: "argmin xs = Inr k"
  have "first_min [x] 0" by (simp add: first_min_def)
  from argmin_scan_first_min [OF this, of ys] a Cons show ?thesis
    by (simp add: argmin_def)
qed

lemma argmin_nonempty: "xs \<noteq> [] \<Longrightarrow> \<exists>k. argmin xs = Inr k"
  by (cases xs) (simp_all add: argmin_def)


















subsection \<open>Facts about beat synchronisation\<close>

lemma beat_sync_nearest:
  assumes "beat_sync beats f = Inr a"
  shows "\<exists>i<length beats. a = beats ! i
           \<and> (\<forall>j<length beats. \<bar>a - f\<bar> \<le> \<bar>beats ! j - f\<bar>)
           \<and> (\<forall>j<i. \<bar>a - f\<bar> < \<bar>beats ! j - f\<bar>)"
proof -
  let ?d = "map (\<lambda>b. \<bar>b - f\<bar>) beats"
  from assms obtain i where i: "argmin ?d = Inr i" and a: "a = beats ! i"
    by (auto simp: beat_sync_def split: sum.splits)
  from i have fm: "first_min ?d i" by (rule argmin_first_min)
  then have il: "i < length beats" by (simp add: first_min_def)
  have all: "\<forall>j<length beats. \<bar>a - f\<bar> \<le> \<bar>beats ! j - f\<bar>"
    using fm il a by (simp add: first_min_def list_all_length)
  have before: "\<forall>j<i. \<bar>a - f\<bar> < \<bar>beats ! j - f\<bar>"
    using fm il a by (simp add: first_min_def list_all_length)
  show ?thesis using il a all before by blast
qed

lemma beat_sync_nonempty: "beats \<noteq> [] \<Longrightarrow> \<exists>a. beat_sync beats f = Inr a"
proof -
  assume "beats \<noteq> []"
  then have "map (\<lambda>b. \<bar>b - f\<bar>) beats \<noteq> []" by simp
  then obtain k where "argmin (map (\<lambda>b. \<bar>b - f\<bar>) beats) = Inr k"
    using argmin_nonempty by blast
  then show ?thesis by (simp add: beat_sync_def)
qed

lemma beat_sync_order:
  assumes "sorted_wrt (<) beats" and "s \<le> e"
    and "beat_sync beats s = Inr a" and "beat_sync beats e = Inr b"
  shows "a \<le> b"
proof (rule ccontr)
  assume "\<not> a \<le> b"
  then have ba: "b < a" by simp
  obtain i where i: "i < length beats" "a = beats ! i"
    and ia: "\<forall>j<i. \<bar>a - s\<bar> < \<bar>beats ! j - s\<bar>"
    using beat_sync_nearest [OF assms(3)] by blast
  obtain j where j: "j < length beats" "b = beats ! j"
    and jm: "\<forall>l<length beats. \<bar>b - e\<bar> \<le> \<bar>beats ! l - e\<bar>"
    using beat_sync_nearest [OF assms(4)] by blast
  have "j < i"
  proof (rule ccontr)
    assume "\<not> j < i"
    then have "i = j \<or> i < j" by auto
    then have "beats ! i \<le> beats ! j"
      using assms(1) j(1) by (auto simp: sorted_wrt_iff_nth_less intro: less_imp_le)
    then show False using ba i(2) j(2) by simp
  qed
  then have "\<bar>a - s\<bar> < \<bar>b - s\<bar>" using ia j(2) by simp
  moreover have "\<bar>b - e\<bar> \<le> \<bar>a - e\<bar>" using jm i by simp
  ultimately show False using ba assms(2) by arith
qed

text \<open>
  C10. For a strictly increasing beat grid and a candidate with
  \<open>start_frame \<le> end_frame\<close>, snapping each frame to its nearest beat (the first one on
  a tie) never inverts the order; on a non-empty grid both frames are snapped; and the
  two snapped frames can be equal although the candidate's frames differ.
\<close>

theorem beat_sync_monotone:
  assumes "sorted_wrt (<) beat_frames" and "start_frame \<le> end_frame"
  shows "(beat_frames = [] \<or>
            (\<exists>a b. beat_sync beat_frames start_frame = Inr a
                 \<and> beat_sync beat_frames end_frame = Inr b))
         \<and> (\<forall>a b. beat_sync beat_frames start_frame = Inr a
                 \<and> beat_sync beat_frames end_frame = Inr b \<longrightarrow> a \<le> b)
         \<and> (\<exists>g s e. sorted_wrt (<) g \<and> s < e \<and> beat_sync g s = beat_sync g e
                 \<and> beat_sync g s = Inr (10::int))"
proof -
  have "beat_frames = [] \<or>
      (\<exists>a b. beat_sync beat_frames start_frame = Inr a
           \<and> beat_sync beat_frames end_frame = Inr b)"
    using beat_sync_nonempty by blast
  moreover have "\<forall>a b. beat_sync beat_frames start_frame = Inr a
      \<and> beat_sync beat_frames end_frame = Inr b \<longrightarrow> a \<le> b"
    using beat_sync_order [OF assms] by blast
  moreover have "sorted_wrt (<) [10, 20 :: int] \<and> (3::int) < 4
      \<and> beat_sync [10, 20] 3 = beat_sync [10, 20] 4 \<and> beat_sync [10, 20] 3 = Inr 10"
    by (simp add: beat_sync_def argmin_def)
  then have "\<exists>g s e. sorted_wrt (<) g \<and> s < e \<and> beat_sync g s = beat_sync g e
      \<and> beat_sync g s = Inr (10::int)"
    by blast
  ultimately show ?thesis by blast
qed

theorem beat_sync_monotone_witness:
  "sorted_wrt (<) [4, 10, 16 :: int] \<and> (7::int) \<le> 13
   \<and> beat_sync [4, 10, 16] 7 = Inr 4 \<and> beat_sync [4, 10, 16] 13 = Inr 10
   \<and> (4::int) \<le> 10"
proof -
  have h: "sorted_wrt (<) [4, 10, 16 :: int]" and le: "(7::int) \<le> 13"
    by simp_all
  have a: "beat_sync [4, 10, 16] 7 = Inr 4" and b: "beat_sync [4, 10, 16] 13 = Inr 10"
    by (simp_all add: beat_sync_def argmin_def)
  from beat_sync_monotone [OF h le] a b have "(4::int) \<le> 10"
    by blast
  with h le a b show ?thesis by blast
qed

subsection \<open>Collapsed loop points\<close>

lemma python_rejects_collapse:
  "synced_frames L min_duration = Inr (f, f) \<Longrightarrow>
   python_find_loop_points L min_duration =
     Inl ''Loop points are too close to sync to the beat.''"
  by (simp add: python_find_loop_points_def)

text \<open>
  C5 (what the code does). When beat synchronisation snaps both frames to the same beat,
  \<open>src/python/looper.py\<close> raises its error, but \<open>src/plugin/looper.py\<close> returns the
  line of a zero-length loop and \<open>src/analysis/looper.py\<close> a success with equal times.
\<close>

theorem collapse_not_reported:
  assumes "synced_frames L min_duration = Inr (f, f)"
    and "load L = Inr total_duration"
    and "analysis_min_duration total_duration = min_duration"
  shows "plugin_find_loop_points L min_duration =
           Loop_line (frames_to_time L f) (frames_to_time L f)
         \<and> find_loop_points_from_data L =
           Success (frames_to_time L f) (frames_to_time L f)
         \<and> python_find_loop_points L min_duration =
           Inl ''Loop points are too close to sync to the beat.''"
  using assms
  by (simp add: plugin_find_loop_points_def find_loop_points_from_data_def
      python_find_loop_points_def)

theorem collapse_not_reported_witness:
  "synced_frames
     \<lparr>load = Inr 60, recurrence_matrix = Inr [[0, 3, 1], [3, 0, 5], [1, 5, 0]],
      beat_track = Inr [1, 50],
      time_to_frames = (\<lambda>t. \<lfloor>t * 22050 / 512\<rfloor>),
      frames_to_time = (\<lambda>f. real_of_int f * 512 / 22050),
      warnings = []\<rparr> 10 = Inr (1, 1)
   \<and> analysis_min_duration 60 = 10
   \<and> plugin_find_loop_points
     \<lparr>load = Inr 60, recurrence_matrix = Inr [[0, 3, 1], [3, 0, 5], [1, 5, 0]],
      beat_track = Inr [1, 50],
      time_to_frames = (\<lambda>t. \<lfloor>t * 22050 / 512\<rfloor>),
      frames_to_time = (\<lambda>f. real_of_int f * 512 / 22050),
      warnings = []\<rparr> 10
     = Loop_line (512 / 22050) (512 / 22050)
   \<and> find_loop_points_from_data
     \<lparr>load = Inr 60, recurrence_matrix = Inr [[0, 3, 1], [3, 0, 5], [1, 5, 0]],
      beat_track = Inr [1, 50],
      time_to_frames = (\<lambda>t. \<lfloor>t * 22050 / 512\<rfloor>),
      frames_to_time = (\<lambda>f. real_of_int f * 512 / 22050),
      warnings = []\<rparr>
     = Success (512 / 22050) (512 / 22050)"
proof -
  let ?L = "\<lparr>load = Inr 60, recurrence_matrix = Inr [[0, 3, 1], [3, 0, 5], [1, 5, 0]],
      beat_track = Inr [1, 50],
      time_to_frames = (\<lambda>t. \<lfloor>t * 22050 / 512\<rfloor>),
      frames_to_time = (\<lambda>f. real_of_int f * 512 / 22050),
      warnings = []\<rparr>"
  have s: "synced_frames ?L 10 = Inr (1, 1)"
    by code_simp
  have l: "load ?L = Inr 60" by simp
  have d: "analysis_min_duration 60 = 10"
    by (simp add: analysis_min_duration_def)
  from collapse_not_reported [OF s l d] s d show ?thesis
    by simp
qed

subsection \<open>The minimum loop duration\<close>

text \<open>
  C6 (as amended). For a track of at least 20 seconds and no override,
  \<open>src/python/looper.py\<close> analyses at most the first 300 seconds and masks with
  \<open>max(15.0, 0.15 * min(total_duration, 300))\<close> seconds; \<open>src/plugin/looper.py\<close> masks
  with \<open>0.15 * total_duration\<close> and \<open>src/analysis/looper.py\<close> with
  \<open>max(10, 0.15 * total_duration)\<close>. The first is \<open>max(15.0, 0.15 * total_duration)\<close>
  exactly up to 300 seconds, the other two exactly from 100 seconds on.
\<close>

theorem min_loop_duration_by_variant:
  assumes "20 \<le> total_duration" and "load L = Inr total_duration"
  shows "python_try L =
             (case python_find_loop_points L (max 15.0 (0.15 * min total_duration 300)) of
                Inl e \<Rightarrow> Inl e
              | Inr (loop_start, loop_end) \<Rightarrow>
                  if loop_end > loop_start then Inr (Loop_line loop_start loop_end)
                  else Inl ''Could not find a confident loop.'')
         \<and> stdout (plugin_main [script, path] True L) =
             [plugin_find_loop_points L (0.15 * total_duration)]
         \<and> find_loop_points_from_data L =
             (case synced_frames L (max 10 (0.15 * total_duration)) of
                Inl e \<Rightarrow> Failed e
              | Inr (a, b) \<Rightarrow> Success (frames_to_time L a) (frames_to_time L b))
         \<and> (max 15.0 (0.15 * min total_duration 300) = max 15.0 (0.15 * total_duration))
             = (total_duration \<le> 300)
         \<and> (0.15 * total_duration = max 15.0 (0.15 * total_duration))
             = (100 \<le> total_duration)
         \<and> (max 10 (0.15 * total_duration) = max 15.0 (0.15 * total_duration))
             = (100 \<le> total_duration)"
proof -
  have py: "python_min_loop_duration d = max 15.0 (0.15 * d)" for d
    by (simp add: python_min_loop_duration_def mult.commute)
  have pl: "plugin_min_loop_duration total_duration = 0.15 * total_duration"
    by (simp add: plugin_min_loop_duration_def)
  have an: "analysis_min_duration total_duration = max 10 (0.15 * total_duration)"
    by (simp add: analysis_min_duration_def max_def)
  have ld: "python_load L = Inr (min total_duration 300)"
    using assms(2) by (simp add: python_load_def)
  have long: "\<not> min total_duration 300 < 20"
    using assms(1) by simp
  have a: "python_try L =
      (case python_find_loop_points L (max 15.0 (0.15 * min total_duration 300)) of
         Inl e \<Rightarrow> Inl e
       | Inr (loop_start, loop_end) \<Rightarrow>
           if loop_end > loop_start then Inr (Loop_line loop_start loop_end)
           else Inl ''Could not find a confident loop.'')"
    unfolding python_try_def ld py using long by simp
  have b: "stdout (plugin_main [script, path] True L) =
      [plugin_find_loop_points L (0.15 * total_duration)]"
    using assms by (simp add: plugin_main_def pl)
  have c: "find_loop_points_from_data L =
      (case synced_frames L (max 10 (0.15 * total_duration)) of
         Inl e \<Rightarrow> Failed e
       | Inr (a, b) \<Rightarrow> Success (frames_to_time L a) (frames_to_time L b))"
    using assms by (simp add: find_loop_points_from_data_def an)
  have d: "(max 15.0 (0.15 * min total_duration 300) = max 15.0 (0.15 * total_duration))
      = (total_duration \<le> 300)"
    using assms(1) by (auto simp: max_def min_def)
  have e: "(0.15 * total_duration = max 15.0 (0.15 * total_duration))
      = (100 \<le> total_duration)"
    by (auto simp: max_def)
  have f: "(max 10 (0.15 * total_duration) = max 15.0 (0.15 * total_duration))
      = (100 \<le> total_duration)"
    by (auto simp: max_def)
  from a b c d e f show ?thesis by blast
qed

theorem min_loop_duration_by_variant_witness:
  "(20::real) \<le> 60
   \<and> load \<lparr>load = Inr 60, recurrence_matrix = Inl ''no features'', beat_track = Inr [],
         time_to_frames = (\<lambda>t. \<lfloor>t * 22050 / 512\<rfloor>),
         frames_to_time = (\<lambda>f. real_of_int f * 512 / 22050),
         warnings = [''UserWarning: PySoundFile failed. Trying audioread instead.'']\<rparr>
       = Inr 60
   \<and> stdout (plugin_main [''looper.py'', ''track.mp3''] True
        \<lparr>load = Inr 60, recurrence_matrix = Inl ''no features'', beat_track = Inr [],
         time_to_frames = (\<lambda>t. \<lfloor>t * 22050 / 512\<rfloor>),
         frames_to_time = (\<lambda>f. real_of_int f * 512 / 22050),
         warnings = [''UserWarning: PySoundFile failed. Trying audioread instead.'']\<rparr>)
       = [plugin_find_loop_points
            \<lparr>load = Inr 60, recurrence_matrix = Inl ''no features'', beat_track = Inr [],
             time_to_frames = (\<lambda>t. \<lfloor>t * 22050 / 512\<rfloor>),
             frames_to_time = (\<lambda>f. real_of_int f * 512 / 22050),
             warnings = [''UserWarning: PySoundFile failed. Trying audioread instead.'']\<rparr>
            9]
   \<and> python_min_loop_duration (min 60 300) = 15
   \<and> plugin_min_loop_duration 60 = 9
   \<and> analysis_min_duration 60 = 10"
proof -
  let ?L = "\<lparr>load = Inr 60, recurrence_matrix = Inl ''no features'', beat_track = Inr [],
         time_to_frames = (\<lambda>t. \<lfloor>t * 22050 / 512\<rfloor>),
         frames_to_time = (\<lambda>f. real_of_int f * 512 / 22050),
         warnings = [''UserWarning: PySoundFile failed. Trying audioread instead.'']\<rparr>"
  have h: "(20::real) \<le> 60" by simp
  have l: "load ?L = Inr 60" by simp
  have v: "python_min_loop_duration (min 60 300) = 15" "plugin_min_loop_duration 60 = 9"
    "analysis_min_duration 60 = 10"
    by (simp_all add: python_min_loop_duration_def plugin_min_loop_duration_def
        analysis_min_duration_def)
  from min_loop_duration_by_variant
    [OF h l, where script = "''looper.py''" and path = "''track.mp3''"]
  have "stdout (plugin_main [''looper.py'', ''track.mp3''] True ?L)
      = [plugin_find_loop_points ?L 9]"
    by simp
  with h l v show ?thesis by blast
qed

theorem min_loop_duration_counterexample:
  "(20::real) \<le> 60
   \<and> plugin_min_loop_duration 60 \<noteq> max 15.0 (0.15 * 60)
   \<and> analysis_min_duration 60 \<noteq> max 15.0 (0.15 * 60)
   \<and> (20::real) \<le> 600
   \<and> python_load \<lparr>load = Inr 600, recurrence_matrix = Inl ''no features'',
         beat_track = Inr [], time_to_frames = (\<lambda>t. \<lfloor>t * 22050 / 512\<rfloor>),
         frames_to_time = (\<lambda>f. real_of_int f * 512 / 22050), warnings = []\<rparr> = Inr 300
   \<and> python_min_loop_duration 300 \<noteq> max 15.0 (0.15 * 600)"
  by (simp add: plugin_min_loop_duration_def analysis_min_duration_def
      python_min_loop_duration_def python_load_def)

subsection \<open>Reporting a failure\<close>

text \<open>
  C7 (as amended). On the error channel the library writes its warnings; the scripts do
  not silence them. A run of \<open>src/python/looper.py\<close> either fails, and then the last
  line of the error channel is \<open>Error: \<close> with the message, after the warnings only,
  nothing is on the standard output and the status is 1; or it succeeds with one loop
  line of increasing times on the standard output, the warnings only on the error
  channel, and status 0. \<open>src/plugin/looper.py\<close> itself never writes to the error
  channel, which holds the warnings only: it prints one line on the standard output,
  which is a loop line, the usage line, or a message that starts with \<open>Error: \<close>; the
  failures that its main program detects (bad arguments, missing file, failed load,
  track under 20 seconds) end with status 1.
\<close>

theorem failure_reporting:
  "((\<exists>msg. python_try L = Inl msg
          \<and> python_main L =
              \<lparr>stdout = [],
               stderr = map Text_line (warnings L) @ [Text_line (''Error: '' @ msg)],
               exit_status = 1\<rparr>)
      \<or> (\<exists>a b. a < b
          \<and> python_main L =
              \<lparr>stdout = [Loop_line a b], stderr = map Text_line (warnings L),
               exit_status = 0\<rparr>))
   \<and> stderr (plugin_main argv file_exists L) = map Text_line (warnings L)
   \<and> (\<exists>l. stdout (plugin_main argv file_exists L) = [l]
          \<and> (case l of
                Loop_line a b \<Rightarrow> exit_status (plugin_main argv file_exists L) = 0
              | Text_line t \<Rightarrow>
                  (\<exists>msg. t = ''Error: '' @ msg)
                  \<or> (t = ''Usage: python looper.py <audio_file>'' \<and> length argv \<noteq> 2)))
   \<and> (length argv \<noteq> 2 \<or> \<not> file_exists \<or> (\<exists>e. load L = Inl e)
          \<or> (\<exists>t. load L = Inr t \<and> t < 20)
        \<longrightarrow> exit_status (plugin_main argv file_exists L) = 1)"
proof -
  have py: "(\<exists>msg. python_try L = Inl msg
          \<and> python_main L =
              \<lparr>stdout = [],
               stderr = map Text_line (warnings L) @ [Text_line (''Error: '' @ msg)],
               exit_status = 1\<rparr>)
      \<or> (\<exists>a b. a < b
          \<and> python_main L =
              \<lparr>stdout = [Loop_line a b], stderr = map Text_line (warnings L),
               exit_status = 0\<rparr>)"
  proof (cases "python_try L")
    case (Inl msg)
    then show ?thesis by (simp add: python_main_def)
  next
    case (Inr l)
    then obtain a b where "l = Loop_line a b" and "a < b"
      by (auto simp: python_try_def split: sum.splits if_splits prod.splits)
    with Inr show ?thesis by (simp add: python_main_def)
  qed
  have err: "stderr (plugin_main argv file_exists L) = map Text_line (warnings L)"
    by (simp add: plugin_main_def split: sum.splits)
  have out: "\<exists>l. stdout (plugin_main argv file_exists L) = [l]
          \<and> (case l of
                Loop_line a b \<Rightarrow> exit_status (plugin_main argv file_exists L) = 0
              | Text_line t \<Rightarrow>
                  (\<exists>msg. t = ''Error: '' @ msg)
                  \<or> (t = ''Usage: python looper.py <audio_file>'' \<and> length argv \<noteq> 2))"
    by (auto simp: plugin_main_def plugin_find_loop_points_def
        split: sum.splits prod.splits line.splits)
  have st: "length argv \<noteq> 2 \<or> \<not> file_exists \<or> (\<exists>e. load L = Inl e)
          \<or> (\<exists>t. load L = Inr t \<and> t < 20)
        \<longrightarrow> exit_status (plugin_main argv file_exists L) = 1"
    by (auto simp: plugin_main_def)
  from py err out st show ?thesis by blast
qed

theorem failure_reporting_witness:
  "load \<lparr>load = Inr 12, recurrence_matrix = Inr [], beat_track = Inr [],
         time_to_frames = (\<lambda>t. \<lfloor>t * 22050 / 512\<rfloor>),
         frames_to_time = (\<lambda>f. real_of_int f * 512 / 22050),
         warnings = [''UserWarning: PySoundFile failed. Trying audioread instead.'']\<rparr>
     = Inr 12
   \<and> (12::real) < 20
   \<and> plugin_main [''looper.py'', ''short.wav''] True
        \<lparr>load = Inr 12, recurrence_matrix = Inr [], beat_track = Inr [],
         time_to_frames = (\<lambda>t. \<lfloor>t * 22050 / 512\<rfloor>),
         frames_to_time = (\<lambda>f. real_of_int f * 512 / 22050),
         warnings = [''UserWarning: PySoundFile failed. Trying audioread instead.'']\<rparr>
      = \<lparr>stdout = [Text_line ''Error: Audio file too short for analysis''],
         stderr = [Text_line ''UserWarning: PySoundFile failed. Trying audioread instead.''],
         exit_status = 1\<rparr>
   \<and> python_main
        \<lparr>load = Inr 12, recurrence_matrix = Inr [], beat_track = Inr [],
         time_to_frames = (\<lambda>t. \<lfloor>t * 22050 / 512\<rfloor>),
         frames_to_time = (\<lambda>f. real_of_int f * 512 / 22050),
         warnings = [''UserWarning: PySoundFile failed. Trying audioread instead.'']\<rparr>
      = \<lparr>stdout = [],
         stderr = [Text_line ''UserWarning: PySoundFile failed. Trying audioread instead.'',
                   Text_line ''Error: Audio file is too short for meaningful loop analysis.''],
         exit_status = 1\<rparr>"
proof -
  let ?L = "\<lparr>load = Inr 12, recurrence_matrix = Inr [], beat_track = Inr [],
         time_to_frames = (\<lambda>t. \<lfloor>t * 22050 / 512\<rfloor>),
         frames_to_time = (\<lambda>f. real_of_int f * 512 / 22050),
         warnings = [''UserWarning: PySoundFile failed. Trying audioread instead.'']\<rparr>"
  have l: "load ?L = Inr 12" by simp
  have "exit_status (plugin_main [''looper.py'', ''short.wav''] True ?L) = 1"
    using failure_reporting [of ?L "[''looper.py'', ''short.wav'']" True] l by auto
  then show ?thesis
    by (simp add: plugin_main_def python_main_def python_try_def python_load_def)
qed

theorem failure_on_success_channel_counterexample:
  "stdout (plugin_main [''looper.py'', ''silence.wav''] True
     \<lparr>load = Inr 60, recurrence_matrix = Inr [[0, 0, 0], [0, 0, 0], [0, 0, 0]],
      beat_track = Inr [],
      time_to_frames = (\<lambda>t. \<lfloor>t * 22050 / 512\<rfloor>),
      frames_to_time = (\<lambda>f. real_of_int f * 512 / 22050),
      warnings = []\<rparr>)
     = [Text_line ''Error: attempt to get argmin of an empty sequence'']
   \<and> exit_status (plugin_main [''looper.py'', ''silence.wav''] True
     \<lparr>load = Inr 60, recurrence_matrix = Inr [[0, 0, 0], [0, 0, 0], [0, 0, 0]],
      beat_track = Inr [],
      time_to_frames = (\<lambda>t. \<lfloor>t * 22050 / 512\<rfloor>),
      frames_to_time = (\<lambda>f. real_of_int f * 512 / 22050),
      warnings = []\<rparr>) = 0"
  by code_simp

subsection \<open>Facts about the extension loop\<close>

lemma extend_loop_step:
  "get_duration ext sr < t \<Longrightarrow> extend_loop ext seg sr t = extend_loop (ext @ seg) seg sr t"
  by (subst extend_loop.simps) simp

lemma extend_loop_stop:
  "\<not> get_duration ext sr < t \<Longrightarrow> extend_loop ext seg sr t = Some ext"
  by (subst extend_loop.simps) simp

lemma extend_loop_empty_segment_Some:
  assumes "extend_loop ext seg sr t = Some out"
  shows "\<not> (seg = [] \<and> get_duration ext sr < t)"
  by (rule extend_loop.raw_induct [OF _ assms]) (auto split: if_splits)

lemma extend_loop_diverges:
  "get_duration ext sr < t \<Longrightarrow> extend_loop ext [] sr t = None"
  using extend_loop_empty_segment_Some [of ext "[]" sr t] by (cases "extend_loop ext [] sr t") auto

lemma get_duration_append:
  "get_duration (xs @ ys) sr = get_duration xs sr + get_duration ys sr"
  by (simp add: get_duration_def add_divide_distrib)

lemma extend_loop_shape:
  assumes "0 < sr" and "seg \<noteq> []"
  shows "\<exists>k. extend_loop ext seg sr t = Some (ext @ concat (replicate k seg))
             \<and> t \<le> get_duration (ext @ concat (replicate k seg)) sr
             \<and> (\<forall>j<k. get_duration (ext @ concat (replicate j seg)) sr < t)"
proof (induction "nat \<lceil>t * real sr\<rceil> - length ext" arbitrary: ext rule: less_induct)
  case less
  show ?case
  proof (cases "get_duration ext sr < t")
    case False
    then have "extend_loop ext seg sr t = Some (ext @ concat (replicate 0 seg))"
      by (simp add: extend_loop_stop)
    moreover have "t \<le> get_duration (ext @ concat (replicate 0 seg)) sr"
      using False by simp
    ultimately show ?thesis by blast
  next
    case True
    then have "real (length ext) < t * real sr"
      using assms(1) by (simp add: get_duration_def pos_divide_less_eq)
    then have "real (length ext) < real_of_int \<lceil>t * real sr\<rceil>"
      by (meson le_of_int_ceiling less_le_trans)
    then have lt: "length ext < nat \<lceil>t * real sr\<rceil>"
      by linarith
    have "0 < length seg" using assms(2) by simp
    with lt have "nat \<lceil>t * real sr\<rceil> - length (ext @ seg) < nat \<lceil>t * real sr\<rceil> - length ext"
      unfolding length_append by linarith
    from less [OF this] obtain k where
      k: "extend_loop (ext @ seg) seg sr t = Some ((ext @ seg) @ concat (replicate k seg))"
         "t \<le> get_duration ((ext @ seg) @ concat (replicate k seg)) sr"
         "\<forall>j<k. get_duration ((ext @ seg) @ concat (replicate j seg)) sr < t"
      by blast
    have "extend_loop ext seg sr t = Some (ext @ concat (replicate (Suc k) seg))"
      using True k(1) by (simp add: extend_loop_step)
    moreover have "t \<le> get_duration (ext @ concat (replicate (Suc k) seg)) sr"
      using k(2) by simp
    moreover have "\<forall>j<Suc k. get_duration (ext @ concat (replicate j seg)) sr < t"
    proof (intro allI impI)
      fix j assume "j < Suc k"
      show "get_duration (ext @ concat (replicate j seg)) sr < t"
      proof (cases j)
        case 0
        then show ?thesis using True by simp
      next
        case (Suc j')
        then have "j' < k" using \<open>j < Suc k\<close> by simp
        then show ?thesis using k(3) Suc by simp
      qed
    qed
    ultimately show ?thesis by blast
  qed
qed

lemma get_duration_replicate:
  "get_duration (concat (replicate k seg)) sr = real k * get_duration seg sr"
  by (induction k) (simp_all add: get_duration_append get_duration_def algebra_simps
      add_divide_distrib)

lemma extend_loop_prefix:
  assumes "extend_loop ext seg sr t = Some out"
  shows "\<exists>rest. out = ext @ rest"
proof (rule extend_loop.raw_induct [OF _ assms])
  fix f :: "samples \<Rightarrow> samples \<Rightarrow> nat \<Rightarrow> real \<Rightarrow> samples option"
  fix ext seg sr t out
  assume IH: "\<And>a b c d y. f a b c d = Some y \<Longrightarrow> \<exists>rest. y = a @ rest"
    and eq: "(if get_duration ext sr < t then f (ext @ seg) seg sr t else Some ext) = Some out"
  show "\<exists>rest. out = ext @ rest"
  proof (cases "get_duration ext sr < t")
    case True
    with eq have "f (ext @ seg) seg sr t = Some out" by simp
    from IH [OF this] obtain rest where "out = (ext @ seg) @ rest" by blast
    then have "out = ext @ (seg @ rest)" by simp
    then show ?thesis by blast
  next
    case False
    with eq show ?thesis by simp
  qed
qed

lemma py_slice_nonempty_iff:
  assumes "0 \<le> lo" and "lo < hi"
  shows "(py_slice xs lo hi \<noteq> []) = (lo < int (length xs))"
  using assms by (auto simp: py_slice_def slice_index_def min_def)

lemma py_slice_same: "py_slice xs lo lo = []"
  by (simp add: py_slice_def)

lemma extend_samples_returns_iff:
  assumes "0 < sr"
  shows "(\<exists>out. extend_samples y sr ls le t = Some out)
           = (py_slice y ls le \<noteq> [] \<or> t \<le> get_duration (py_slice_to y le) sr)"
proof (cases "py_slice y ls le = []")
  case True
  show ?thesis
  proof (cases "get_duration (py_slice_to y le) sr < t")
    case True
    with \<open>py_slice y ls le = []\<close> show ?thesis
      by (simp add: extend_samples_def extend_loop_diverges)
  next
    case False
    then show ?thesis
      by (simp add: extend_samples_def extend_loop_stop)
  qed
next
  case False
  from extend_loop_shape [OF assms False, of "py_slice_to y le" t] False
  show ?thesis by (auto simp: extend_samples_def)
qed

text \<open>
  C9 (as amended). With a positive sample rate the repetition loop ends exactly when
  the loop segment \<open>y[loop_start_samples:loop_end_samples]\<close> is non-empty or the prefix
  duration already reaches the target. The segment is empty when the two indices are
  equal; for \<open>0 \<le> loop_start_samples < loop_end_samples\<close> it is non-empty exactly when
  \<open>loop_start_samples\<close> lies inside the buffer.
\<close>

theorem extend_terminates_iff:
  assumes "0 < sr"
  shows "(\<exists>out. extend_samples y sr loop_start_samples loop_end_samples target = Some out)
           = (py_slice y loop_start_samples loop_end_samples \<noteq> []
              \<or> target \<le> get_duration (py_slice_to y loop_end_samples) sr)
         \<and> py_slice y loop_end_samples loop_end_samples = []
         \<and> (0 \<le> loop_start_samples \<and> loop_start_samples < loop_end_samples \<longrightarrow>
              (py_slice y loop_start_samples loop_end_samples \<noteq> [])
                = (loop_start_samples < int (length y)))"
  using extend_samples_returns_iff [OF assms] py_slice_nonempty_iff py_slice_same
  by blast

theorem extend_terminates_iff_witness:
  "(0::nat) < 1 \<and> (0::int) \<le> 1 \<and> (1::int) < 3
   \<and> extend_samples [1, 2, 3, 4] 1 1 3 7 = Some [1, 2, 3, 2, 3, 2, 3]
   \<and> py_slice [1, 2, 3, 4 :: real] 1 3 \<noteq> []
   \<and> extend_samples [1, 2, 3, 4] 1 2 2 7 = None"
proof -
  have sr: "(0::nat) < 1" by simp
  have a: "extend_samples [1, 2, 3, 4] 1 1 3 7 = Some [1, 2, 3, 2, 3, 2, 3]"
    by (simp add: extend_samples_def py_slice_def py_slice_to_def slice_index_def
        extend_loop_step extend_loop_stop get_duration_def)
  have below: "\<not> 7 \<le> get_duration (py_slice_to [1, 2, 3, 4] 2) 1"
    by (simp add: py_slice_to_def slice_index_def get_duration_def)
  from extend_terminates_iff [OF sr, of "[1, 2, 3, 4]" 1 3 7] a
  have b: "py_slice [1, 2, 3, 4 :: real] 1 3 \<noteq> []"
    by (simp add: py_slice_to_def slice_index_def get_duration_def)
  from extend_terminates_iff [OF sr, of "[1, 2, 3, 4]" 2 2 7] below
  have c: "extend_samples [1, 2, 3, 4] 1 2 2 7 = None"
    by auto
  from a b c show ?thesis by simp
qed

theorem extend_never_ends_counterexample:
  "(5::int) < 7 \<and> extend_samples [1, 2] 1 5 7 3 = None"
  by (simp add: extend_samples_def py_slice_def py_slice_to_def slice_index_def
      extend_loop_diverges get_duration_def)

lemma extend_samples_shape:
  assumes "0 < sr" and "py_slice y ls le \<noteq> []"
  shows "\<exists>k. extend_samples y sr ls le t =
               Some (py_slice_to y le @ concat (replicate k (py_slice y ls le)))
           \<and> t \<le> get_duration (py_slice_to y le @ concat (replicate k (py_slice y ls le))) sr
           \<and> (if t \<le> get_duration (py_slice_to y le) sr then k = 0
               else 0 < k
                 \<and> get_duration
                      (py_slice_to y le @ concat (replicate k (py_slice y ls le))) sr - t
                    < get_duration (py_slice y ls le) sr)"
proof -
  let ?p = "py_slice_to y le" and ?s = "py_slice y ls le"
  let ?stage = "\<lambda>k. ?p @ concat (replicate k ?s)"
  obtain k where ret: "extend_loop ?p ?s sr t = Some (?stage k)"
    and reach: "t \<le> get_duration (?stage k) sr"
    and below: "\<forall>j<k. get_duration (?stage j) sr < t"
    using extend_loop_shape [OF assms, of ?p t] by blast
  have dur: "get_duration (?stage j) sr = get_duration ?p sr + real j * get_duration ?s sr"
    for j by (simp add: get_duration_append get_duration_replicate)
  have last: "if t \<le> get_duration ?p sr then k = 0
      else 0 < k \<and> get_duration (?stage k) sr - t < get_duration ?s sr"
  proof (cases "t \<le> get_duration ?p sr")
    case True
    have "k = 0"
    proof (rule ccontr)
      assume "k \<noteq> 0"
      then have "get_duration (?stage 0) sr < t" using below by blast
      with True show False by simp
    qed
    with True show ?thesis by simp
  next
    case False
    have "k \<noteq> 0"
    proof
      assume "k = 0"
      with reach have "t \<le> get_duration ?p sr" by simp
      with False show False by simp
    qed
    then obtain j where j: "k = Suc j" by (cases k) simp_all
    then have "get_duration (?stage j) sr < t" using below by blast
    moreover have "get_duration (?stage k) sr = get_duration (?stage j) sr + get_duration ?s sr"
      unfolding dur j by (simp add: algebra_simps)
    ultimately have "get_duration (?stage k) sr - t < get_duration ?s sr" by linarith
    with False \<open>k \<noteq> 0\<close> show ?thesis by simp
  qed
  from ret have "extend_samples y sr ls le t = Some (?stage k)"
    by (simp add: extend_samples_def)
  with reach last show ?thesis by blast
qed

text \<open>
  C3 (as amended). With a positive sample rate and a non-empty loop segment
  \<open>y[loop_start_samples:loop_end_samples]\<close>, the extender returns the prefix
  \<open>y[:loop_end_samples]\<close> followed by \<open>k\<close> whole copies of the segment; the duration of
  the output reaches the target; when the target is at most the prefix duration, \<open>k\<close>
  is 0 and the prefix alone is returned; otherwise \<open>k\<close> is positive and the output
  exceeds the target by less than the duration of one segment.
\<close>

theorem extend_whole_repetitions:
  assumes "0 < sr" and "py_slice y loop_start_samples loop_end_samples \<noteq> []"
  shows "\<exists>k. extend_samples y sr loop_start_samples loop_end_samples target =
               Some (py_slice_to y loop_end_samples
                     @ concat (replicate k (py_slice y loop_start_samples loop_end_samples)))
           \<and> target \<le> get_duration
                 (py_slice_to y loop_end_samples
                  @ concat (replicate k (py_slice y loop_start_samples loop_end_samples))) sr
           \<and> (if target \<le> get_duration (py_slice_to y loop_end_samples) sr then k = 0
               else 0 < k
                 \<and> get_duration
                      (py_slice_to y loop_end_samples
                       @ concat (replicate k (py_slice y loop_start_samples loop_end_samples)))
                      sr - target
                    < get_duration (py_slice y loop_start_samples loop_end_samples) sr)"
  using assms by (rule extend_samples_shape)

theorem extend_whole_repetitions_witness:
  "(0::nat) < 2 \<and> py_slice [1, 2, 3, 4, 5 :: real] 1 3 = [2, 3]
   \<and> py_slice_to [1, 2, 3, 4, 5 :: real] 3 = [1, 2, 3]
   \<and> extend_samples [1, 2, 3, 4, 5] 2 1 3 3 = Some [1, 2, 3, 2, 3, 2, 3]
   \<and> (3::real) \<le> get_duration [1, 2, 3, 2, 3, 2, 3] 2
   \<and> get_duration [1, 2, 3, 2, 3, 2, 3] 2 - 3 < get_duration [2, 3] 2
   \<and> extend_samples [1, 2, 3, 4, 5] 2 1 3 1 = Some [1, 2, 3]"
proof -
  have sr: "(0::nat) < 2" by simp
  have seg: "py_slice [1, 2, 3, 4, 5 :: real] 1 3 = [2, 3]"
    by (simp add: py_slice_def slice_index_def)
  have ne: "py_slice [1, 2, 3, 4, 5 :: real] 1 3 \<noteq> []"
    by (simp add: seg)
  have pre: "py_slice_to [1, 2, 3, 4, 5 :: real] 3 = [1, 2, 3]"
    by (simp add: py_slice_to_def slice_index_def)
  have run: "extend_samples [1, 2, 3, 4, 5] 2 1 3 3 = Some [1, 2, 3, 2, 3, 2, 3]"
    by (simp add: extend_samples_def seg pre extend_loop_step extend_loop_stop
        get_duration_def)
  from extend_whole_repetitions [OF sr ne, of 3] obtain k where
    k: "Some [1, 2, 3, 2, 3, 2, 3 :: real] = Some ([1, 2, 3] @ concat (replicate k [2, 3]))"
       "3 \<le> get_duration ([1, 2, 3] @ concat (replicate k [2, 3])) 2"
       "if 3 \<le> get_duration [1, 2, 3] 2 then k = 0
        else 0 < k \<and> get_duration ([1, 2, 3] @ concat (replicate k [2, 3])) 2 - 3
               < get_duration [2, 3] 2"
    unfolding run seg pre by metis
  have out: "[1, 2, 3] @ concat (replicate k [2, 3]) = [1, 2, 3, 2, 3, 2, 3 :: real]"
    using k(1) by simp
  have nb: "\<not> 3 \<le> get_duration [1, 2, 3] 2"
    by (simp add: get_duration_def)
  have reach: "(3::real) \<le> get_duration [1, 2, 3, 2, 3, 2, 3] 2"
    using k(2) unfolding out .
  have over: "get_duration [1, 2, 3, 2, 3, 2, 3] 2 - 3 < get_duration [2, 3] 2"
    using k(3) nb unfolding out by simp
  from extend_whole_repetitions [OF sr ne, of 1]
  have short: "extend_samples [1, 2, 3, 4, 5] 2 1 3 1 = Some [1, 2, 3]"
    unfolding seg pre by (auto simp: get_duration_def)
  from sr seg pre run reach over short show ?thesis by blast
qed

theorem extend_no_output_counterexample:
  "(4::int) < 6 \<and> extend_samples [1, 2, 3] 1 4 6 5 = None"
  by (simp add: extend_samples_def py_slice_def py_slice_to_def slice_index_def
      extend_loop_diverges get_duration_def)

lemma extend_samples_prefix:
  assumes "extend_samples y sr ls le t = Some out"
  shows "\<exists>rest. out = py_slice_to y le @ rest"
  using assms extend_loop_prefix by (simp add: extend_samples_def)

text \<open>
  C8 (as amended). With a positive sample rate and \<open>0 \<le> loop_end_samples \<le> len(y)\<close>,
  whenever the extender returns, the first \<open>loop_end_samples\<close> samples of its output
  are the first \<open>loop_end_samples\<close> samples of the input buffer; and it does return when
  the loop segment is non-empty or the prefix duration reaches the target.
\<close>

theorem extend_keeps_prefix:
  assumes "0 < sr" and "0 \<le> loop_end_samples" and "loop_end_samples \<le> int (length y)"
  shows "(\<forall>out. extend_samples y sr loop_start_samples loop_end_samples target = Some out
            \<longrightarrow> take (nat loop_end_samples) out = take (nat loop_end_samples) y)
         \<and> (py_slice y loop_start_samples loop_end_samples \<noteq> []
              \<or> target \<le> get_duration (py_slice_to y loop_end_samples) sr
            \<longrightarrow> (\<exists>out. extend_samples y sr loop_start_samples loop_end_samples target
                         = Some out))"
proof -
  have le: "nat loop_end_samples \<le> length y"
    using assms(2,3) by linarith
  have pre: "py_slice_to y loop_end_samples = take (nat loop_end_samples) y"
    using assms(2) le by (simp add: py_slice_to_def slice_index_def min_def)
  have len: "length (take (nat loop_end_samples) y) = nat loop_end_samples"
    using le by simp
  have "take (nat loop_end_samples) out = take (nat loop_end_samples) y"
    if "extend_samples y sr loop_start_samples loop_end_samples target = Some out" for out
  proof -
    from extend_samples_prefix [OF that] obtain rest
      where "out = take (nat loop_end_samples) y @ rest"
      unfolding pre by blast
    then show ?thesis using len by simp
  qed
  then show ?thesis
    using extend_samples_returns_iff [OF assms(1)] by blast
qed

theorem extend_keeps_prefix_witness:
  "(0::nat) < 1 \<and> (0::int) \<le> 3 \<and> (3::int) \<le> int (length [1, 2, 3, 4 :: real])
   \<and> extend_samples [1, 2, 3, 4] 1 1 3 6 = Some [1, 2, 3, 2, 3, 2, 3]
   \<and> take (nat 3) [1, 2, 3, 2, 3, 2, 3 :: real] = take (nat 3) [1, 2, 3, 4]"
proof -
  have sr: "(0::nat) < 1" and lo: "(0::int) \<le> 3"
    and hi: "(3::int) \<le> int (length [1, 2, 3, 4 :: real])"
    by simp_all
  have run: "extend_samples [1, 2, 3, 4] 1 1 3 6 = Some [1, 2, 3, 2, 3, 2, 3]"
    by (simp add: extend_samples_def py_slice_def py_slice_to_def slice_index_def
        extend_loop_step extend_loop_stop get_duration_def)
  from extend_keeps_prefix [OF sr lo hi, of 1 6] run
  have "take (nat 3) [1, 2, 3, 2, 3, 2, 3 :: real] = take (nat 3) [1, 2, 3, 4]"
    by blast
  with sr lo hi run show ?thesis by blast
qed

theorem extend_prefix_past_end_counterexample:
  "extend_samples [1, 2] 1 0 3 3 = Some [1, 2, 1, 2]
   \<and> py_slice_to [1, 2, 1, 2 :: real] 3 \<noteq> py_slice_to [1, 2] 3
   \<and> take 3 [1, 2, 1, 2 :: real] \<noteq> take 3 [1, 2]"
  by (simp add: extend_samples_def py_slice_def py_slice_to_def slice_index_def
      extend_loop_step extend_loop_stop get_duration_def)

end
